theory Spec2Isabelle
  imports Complex_Main
begin

section \<open>kju: a self-tuning batching queue (lib/kju.js)\<close>

text \<open>
  A shallow embedding of \<^verbatim>\<open>lib/kju.js\<close>. The queue object is a record, every
  method takes the object (\<open>this\<close>) and returns it updated. Signals published through
  the event emitter are appended to the log \<open>emitted\<close> of the object, in the order of
  the \<^verbatim>\<open>emit\<close> calls; what listeners do with them is outside the file.

  JavaScript numbers are modelled by the rationals: the arithmetic of the file is
  \<open>+\<close>, \<open>-\<close>, \<open>* 2\<close>, \<open>/ 2\<close> and comparisons, which doubles compute exactly on
  the integers and half-integers of ordinary configurations. Where the source formats a
  number (\<^verbatim>\<open>toFixed\<close>) the formatting of finite numbers is a parameter.
\<close>

subsection \<open>Data\<close>

type_synonym number = rat

text \<open>Errors of the host's file system calls, and the error objects the file handles.\<close>

datatype fs_error = ENOENT string | EISDIR string | ENOTDIR string | EACCES string

datatype js_error = FsError fs_error | Error string | ReferenceError string

text \<open>
  The signals of the file: \<^verbatim>\<open>enabled\<close>, \<^verbatim>\<open>disabled\<close>, \<^verbatim>\<open>data\<close> (batch, count),
  \<^verbatim>\<open>warning.maximum\<close>, \<^verbatim>\<open>warning.minimum\<close>, \<^verbatim>\<open>error\<close>, \<^verbatim>\<open>error.backup\<close>,
  \<^verbatim>\<open>error.recover\<close>.
\<close>

datatype 'a event =
    Enabled
  | Disabled
  | Data "'a list" number
  | WarningMaximum
  | WarningMinimum
  | ErrorEvent js_error
  | ErrorBackup js_error
  | ErrorRecover js_error

text \<open>
  The object the constructor builds. \<open>timeout\<close> is the pending timer (\<open>Some d\<close>: a timer
  set to fire \<open>update\<close> after \<open>d\<close> ms; \<open>None\<close>: the property is absent).
  \<open>exit_listeners\<close> counts the listeners this object has registered on the process's
  \<^verbatim>\<open>exit\<close> event.
\<close>

record 'a kju =
  limit :: number
  ms :: number
  interval :: number
  warnings :: bool
  enabled :: bool
  recover :: bool
  path :: string
  name :: string
  buffer :: "'a list"
  length_q :: number
  drained :: number
  processed :: number
  since :: number
  minimum :: number
  maximum :: number
  timeout :: "number option"
  exit_listeners :: nat
  emitted :: "'a event list"

text \<open>
  The options a caller may pass; an absent option keeps the default. The constructor
  copies every property of its argument; the model covers the eight documented options.
\<close>

record configuration =
  opt_limit :: "number option"
  opt_ms :: "number option"
  opt_interval :: "number option"
  opt_warnings :: "bool option"
  opt_enabled :: "bool option"
  opt_recover :: "bool option"
  opt_path :: "string option"
  opt_name :: "string option"

definition no_options :: configuration where
  "no_options = \<lparr>opt_limit = None, opt_ms = None, opt_interval = None, opt_warnings = None,
     opt_enabled = None, opt_recover = None, opt_path = None, opt_name = None\<rparr>"

subsection \<open>Buffer, timer and interval tuning\<close>

definition emit :: "'a event \<Rightarrow> 'a kju \<Rightarrow> 'a kju" where
  "emit e this = this\<lparr>emitted := emitted this @ [e]\<rparr>"

text \<open>
  \<^verbatim>\<open>enable\<close>: nothing when a timer is pending; otherwise sets the timer to the current
  interval, adds an exit listener and signals \<^verbatim>\<open>enabled\<close>.
\<close>

definition enable :: "'a kju \<Rightarrow> 'a kju" where
  "enable this =
     (if timeout this \<noteq> None then this
      else emit Enabled
        (this\<lparr>timeout := Some (interval this), exit_listeners := Suc (exit_listeners this)\<rparr>))"

text \<open>
  \<^verbatim>\<open>drain\<close>: \<^verbatim>\<open>this.buffer.splice(0)\<close> empties the buffer and yields its items, which
  are published with the current \<open>length\<close>; then the counters are updated. The body has
  no test of the buffer or of \<open>length\<close>.
\<close>

definition drain :: "'a kju \<Rightarrow> 'a kju" where
  "drain this =
     (let batch = buffer this;
          this1 = this\<lparr>buffer := []\<rparr>;
          this2 = emit (Data batch (length_q this1)) this1;
          this3 = this2\<lparr>drained := drained this2 + 1\<rparr>;
          this4 = this3\<lparr>processed := processed this3 + length_q this3\<rparr>
      in this4\<lparr>length_q := 0\<rparr>)"

text \<open>
  \<^verbatim>\<open>disable(nocommit)\<close>. The listener handed to \<^verbatim>\<open>removeListener\<close> is a fresh
  bound function, not the one \<^verbatim>\<open>enable\<close> registered, so no listener is removed.
\<close>

definition disable :: "bool \<Rightarrow> 'a kju \<Rightarrow> 'a kju" where
  "disable nocommit this =
     (if timeout this = None then this
      else
        let this1 = (if length_q this \<noteq> 0 \<and> \<not> nocommit then drain this else this);
            this2 = (if timeout this1 \<noteq> None then this1\<lparr>timeout := None\<rparr> else this1);
            this3 = this2\<lparr>timeout := None\<rparr>
        in emit Disabled this3)"

text \<open>
  \<^verbatim>\<open>push(item, ...)\<close>: adds the number of arguments to \<open>length\<close> and appends them to
  the buffer. The statement under the limit test, \<^verbatim>\<open>this.update.bind(this)\<close>, builds a
  bound function and drops it: \<open>update\<close> is not called.
\<close>

definition push :: "'a list \<Rightarrow> 'a kju \<Rightarrow> 'a kju" where
  "push arguments this =
     (let this1 = this\<lparr>length_q := length_q this + of_nat (length arguments)\<rparr>;
          this2 = this1\<lparr>buffer := buffer this1 @ arguments\<rparr>
      in if length_q this2 \<ge> limit this2 then this2 else this2)"

text \<open>
  \<^verbatim>\<open>update\<close>, the timer's callback (one tick): nothing without a pending timer;
  otherwise the timer is cleared, the interval is moved, a new timer is set and a
  non-empty queue is drained. The branches and their tests are the source's.
\<close>

definition update :: "'a kju \<Rightarrow> 'a kju" where
  "update this =
     (if timeout this = None then this
      else
        let this1 = this\<lparr>timeout := None\<rparr>;
            this2 =
              (if length_q this1 = 0 \<or> length_q this1 < limit this1 then
                 let t = this1\<lparr>interval :=
                       (if interval this1 \<ge> maximum this1 then maximum this1
                        else interval this1 + ms this1)\<rparr>
                 in if warnings t \<and> interval t = maximum t then emit WarningMaximum t else t
               else if length_q this1 \<ge> limit this1 then
                 let t = this1\<lparr>interval :=
                       (if interval this1 \<le> minimum this1 then minimum this1
                        else interval this1 - ms this1)\<rparr>
                 in if warnings t \<and> interval t = minimum t then emit WarningMinimum t else t
               else this1);
            this3 = this2\<lparr>timeout := Some (interval this2)\<rparr>
        in if length_q this3 \<noteq> 0 then drain this3 else this3)"

text \<open>\<open>ticks n\<close>: the timer fires \<open>n\<close> times in a row, nothing else in between.\<close>

primrec ticks :: "nat \<Rightarrow> 'a kju \<Rightarrow> 'a kju" where
  "ticks 0 this = this"
| "ticks (Suc n) this = ticks n (update this)"

text \<open>
  The constructor, up to its return: defaults, then the caller's options, then the
  fields that are not configurable, then \<^verbatim>\<open>enable\<close> when \<open>enabled\<close> is set.
  \<open>dirname\<close> is the module's directory (\<^verbatim>\<open>__dirname\<close>), \<open>now\<close> the clock
  (\<^verbatim>\<open>Date.now()\<close>). The call of \<^verbatim>\<open>recovery\<close> and the check of the path only
  register callbacks; they run after the constructor has returned (see \<open>startup\<close>).
\<close>

definition kju :: "string \<Rightarrow> number \<Rightarrow> configuration \<Rightarrow> 'a kju" where
  "kju dirname now cfg =
     (let i = (case opt_interval cfg of None \<Rightarrow> 15000 | Some v \<Rightarrow> v);
          this = \<lparr>
            limit = (case opt_limit cfg of None \<Rightarrow> 500 | Some v \<Rightarrow> v),
            ms = (case opt_ms cfg of None \<Rightarrow> 100 | Some v \<Rightarrow> v),
            interval = i,
            warnings = (case opt_warnings cfg of None \<Rightarrow> True | Some v \<Rightarrow> v),
            enabled = (case opt_enabled cfg of None \<Rightarrow> True | Some v \<Rightarrow> v),
            recover = (case opt_recover cfg of None \<Rightarrow> True | Some v \<Rightarrow> v),
            path = (case opt_path cfg of None \<Rightarrow> dirname @ ''/'' | Some v \<Rightarrow> v),
            name = (case opt_name cfg of None \<Rightarrow> ''kju.{sequence}.kju'' | Some v \<Rightarrow> v),
            buffer = [],
            length_q = 0,
            drained = 0,
            processed = 0,
            since = now,
            minimum = i / 2,
            maximum = i * 2,
            timeout = None,
            exit_listeners = 0,
            emitted = []\<rparr>
      in if enabled this then enable this else this)"

subsection \<open>Metrics\<close>

text \<open>
  A number that may be \<^verbatim>\<open>NaN\<close>. \<^verbatim>\<open>toFixed\<close> prints \<^verbatim>\<open>NaN\<close> as the string
  \<^verbatim>\<open>"NaN"\<close>; how the host prints a finite number with \<open>d\<close> decimals is the
  parameter \<open>fmt\<close>.
\<close>

datatype jsnum = Num number | NaN

definition divide_js :: "jsnum \<Rightarrow> jsnum \<Rightarrow> jsnum" where
  "divide_js x y =
     (case (x, y) of
        (Num a, Num b) \<Rightarrow> (if b = 0 then NaN else Num (a / b))
      | _ \<Rightarrow> NaN)"

definition toFixed :: "(number \<Rightarrow> nat \<Rightarrow> string) \<Rightarrow> jsnum \<Rightarrow> nat \<Rightarrow> string" where
  "toFixed fmt x d = (case x of NaN \<Rightarrow> ''NaN'' | Num r \<Rightarrow> fmt r d)"

text \<open>
  \<^verbatim>\<open>this.drain\<close> is the method \<open>drain\<close>, a function object; used as an operand of
  \<^verbatim>\<open>/\<close> it converts to \<^verbatim>\<open>NaN\<close>.
\<close>

definition drain_as_number :: jsnum where
  "drain_as_number = NaN"

datatype jsvalue = Number number | String string

text \<open>
  \<^verbatim>\<open>metrics\<close> returns an object; it is modelled as the list of its keys and values,
  in the order of the object literal.
\<close>

definition metrics :: "(number \<Rightarrow> nat \<Rightarrow> string) \<Rightarrow> number \<Rightarrow> 'a kju \<Rightarrow> (string \<times> jsvalue) list" where
  "metrics fmt now this =
     (let uptime = (if since this \<noteq> 0 then now - since this else 0);
          minute = 1000 * 60
      in [(''drain'', Number (drained this)),
          (''processed'', Number (processed this)),
          (''uptime'', Number uptime),
          (''interval'', Number (interval this)),
          (''items per minute'',
             String (toFixed fmt (divide_js (Num (processed this)) (Num minute)) 2)),
          (''drains per minute'',
             String (toFixed fmt (divide_js drain_as_number (Num minute)) 2))])"

subsection \<open>Backup and recovery\<close>

text \<open>
  The file system is a map from full paths to nodes: a directory with the names it
  lists, a file, or a file that exists and cannot be read. A file's text is represented by
  what \<^verbatim>\<open>JSON.parse\<close> and \<^verbatim>\<open>push.apply(self, todo)\<close> make of it:
  \<^item> \<open>Garbage\<close>: \<^verbatim>\<open>JSON.parse\<close> throws;
  \<^item> \<open>JArray items\<close>: a JSON array, whose elements become the arguments of \<open>push\<close>;
  \<^item> \<open>JOther args\<close>: any other JSON value; \<open>args\<close> is the argument list that
    \<^verbatim>\<open>apply\<close> builds from it (\<open>Some []\<close> for \<^verbatim>\<open>null\<close>), \<open>None\<close> when
    \<^verbatim>\<open>apply\<close> throws a TypeError (a number, a string, a boolean).
\<close>

datatype 'a contents = Garbage | JArray "'a list" | JOther "'a list option"

datatype 'a node = Dir "string list" | File "'a contents" | Unreadable

type_synonym 'a filesystem = "string \<Rightarrow> 'a node option"

text \<open>
  The running process: the queue object, the disk, what was written to the console, and
  the exception that escaped the running function or callback, if any (an exception
  that escapes a callback of the event loop ends the process).
\<close>

record 'a process =
  queue :: "'a kju"
  disk :: "'a filesystem"
  console :: "string list"
  thrown :: "js_error option"

definition exists_path :: "'a filesystem \<Rightarrow> string \<Rightarrow> bool" where
  "exists_path d p = (d p \<noteq> None)"

definition readdir :: "'a filesystem \<Rightarrow> string \<Rightarrow> js_error + string list" where
  "readdir d p =
     (case d p of
        None \<Rightarrow> Inl (FsError (ENOENT p))
      | Some (File c) \<Rightarrow> Inl (FsError (ENOTDIR p))
      | Some Unreadable \<Rightarrow> Inl (FsError (ENOTDIR p))
      | Some (Dir names) \<Rightarrow> Inr names)"

definition readFile :: "'a filesystem \<Rightarrow> string \<Rightarrow> js_error + 'a contents" where
  "readFile d p =
     (case d p of
        None \<Rightarrow> Inl (FsError (ENOENT p))
      | Some (Dir names) \<Rightarrow> Inl (FsError (EISDIR p))
      | Some Unreadable \<Rightarrow> Inl (FsError (EACCES p))
      | Some (File c) \<Rightarrow> Inr c)"

text \<open>The test \<^verbatim>\<open>/\.kju$/\<close>: the name ends in \<^verbatim>\<open>.kju\<close>.\<close>

definition is_kju :: "string \<Rightarrow> bool" where
  "is_kju file = (drop (length file - 4) file = ''.kju'')"

text \<open>
  \<^verbatim>\<open>backup\<close>: returns at once when the path does not exist; otherwise writes a line
  to the console and lists the directory (\<^verbatim>\<open>readdirSync\<close> throws when the path is
  not a directory). The filtered list \<open>files\<close> is the last statement of the body:
  nothing is written to the disk.
\<close>

definition backup :: "'a process \<Rightarrow> 'a process" where
  "backup p =
     (if \<not> exists_path (disk p) (path (queue p)) then p
      else
        let p1 = p\<lparr>console := console p @ [''backing uppa'']\<rparr>
        in case readdir (disk p1) (path (queue p1)) of
             Inl err \<Rightarrow> p1\<lparr>thrown := Some err\<rparr>
           | Inr names \<Rightarrow> (let files = filter is_kju names in p1))"

text \<open>
  The identifier \<^verbatim>\<open>done\<close> is declared nowhere in the file: evaluating the call
  \<^verbatim>\<open>done()\<close> throws a ReferenceError.
\<close>

definition done_call :: "'a process \<Rightarrow> 'a process" where
  "done_call p = p\<lparr>thrown := Some (ReferenceError ''done'')\<rparr>"

text \<open>
  The callback of \<^verbatim>\<open>fs.readFile\<close> for \<open>file\<close>, given the result of the read. On a
  read error the body is \<^verbatim>\<open>return done(), self.emit('error.recover', err)\<close>: the
  operands of the comma are evaluated left to right, so \<^verbatim>\<open>done()\<close> comes first.
  Otherwise the text is parsed and pushed inside \<^verbatim>\<open>try\<close>, a failure there is
  signalled, and \<^verbatim>\<open>done()\<close> follows the \<^verbatim>\<open>try\<close> statement. No branch removes
  the file.
\<close>

definition readFile_cb :: "string \<Rightarrow> js_error + 'a contents \<Rightarrow> 'a process \<Rightarrow> 'a process" where
  "readFile_cb file res p =
     (case res of
        Inl err \<Rightarrow> done_call p
      | Inr c \<Rightarrow>
          let corrupted = ErrorRecover
                (Error (''corrupted file, unable to parse contents of '' @ file));
              p1 = (case c of
                      Garbage \<Rightarrow> p\<lparr>queue := emit corrupted (queue p)\<rparr>
                    | JArray todo \<Rightarrow> p\<lparr>queue := push todo (queue p)\<rparr>
                    | JOther None \<Rightarrow> p\<lparr>queue := emit corrupted (queue p)\<rparr>
                    | JOther (Some todo) \<Rightarrow> p\<lparr>queue := push todo (queue p)\<rparr>)
          in done_call p1)"

text \<open>\<^verbatim>\<open>read\<close>: the file at \<^verbatim>\<open>self.path + file\<close> is read and the callback runs.\<close>

definition read :: "string \<Rightarrow> 'a process \<Rightarrow> 'a process" where
  "read file p = readFile_cb file (readFile (disk p) (path (queue p) @ file)) p"

text \<open>
  The callbacks of the reads run one after the other, in the order the reads complete;
  once an exception has escaped a callback the process is over and no further callback
  runs.
\<close>

fun complete_reads :: "string list \<Rightarrow> 'a process \<Rightarrow> 'a process" where
  "complete_reads [] p = p"
| "complete_reads (file # files) p =
     (if thrown p \<noteq> None then p else complete_reads files (read file p))"

text \<open>
  \<^verbatim>\<open>recovery\<close>, with its callbacks run to the end: nothing when the path does not
  exist; a failed listing is signalled as \<^verbatim>\<open>error.backup\<close>; otherwise every name
  ending in \<^verbatim>\<open>.kju\<close> is read. The reads are concurrent: \<open>order\<close> is the order in
  which the host completes them.
\<close>

definition recovery :: "(string list \<Rightarrow> string list) \<Rightarrow> 'a process \<Rightarrow> 'a process" where
  "recovery order p =
     (if \<not> exists_path (disk p) (path (queue p)) then p
      else case readdir (disk p) (path (queue p)) of
             Inl err \<Rightarrow> p\<lparr>queue := emit (ErrorBackup err) (queue p)\<rparr>
           | Inr files \<Rightarrow> (let kjud = filter is_kju files in complete_reads (order kjud) p))"

text \<open>
  The callback of the constructor's \<^verbatim>\<open>path.exists\<close>: a missing path is signalled.
\<close>

definition exists_cb :: "'a process \<Rightarrow> 'a process" where
  "exists_cb p =
     (if \<not> exists_path (disk p) (path (queue p))
      then p\<lparr>queue := emit (ErrorEvent (Error (path (queue p) @ '' does not exist.''))) (queue p)\<rparr>
      else p)"

text \<open>
  A process that constructs a queue on the disk \<open>d\<close> and lets the callbacks registered
  by the constructor run: the path check, and the recovery when \<open>recover\<close> is set.
\<close>

definition startup ::
  "string \<Rightarrow> number \<Rightarrow> (string list \<Rightarrow> string list) \<Rightarrow> configuration \<Rightarrow> 'a filesystem \<Rightarrow> 'a process" where
  "startup dirname now order cfg d =
     (let p = \<lparr>queue = kju dirname now cfg, disk = d, console = [], thrown = None\<rparr>;
          p1 = exists_cb p
      in if recover (queue p1) then recovery order p1 else p1)"

subsection \<open>Predicates and concrete states used below\<close>

fun is_data :: "'a event \<Rightarrow> bool" where
  "is_data (Data batch n) = True"
| "is_data e = False"

text \<open>The \<^verbatim>\<open>data\<close> signals an object has published so far.\<close>

definition data_signals :: "'a kju \<Rightarrow> 'a event list" where
  "data_signals this = filter is_data (emitted this)"

text \<open>The data model's invariant: \<open>length\<close> is the number of buffered items.\<close>

definition consistent :: "'a kju \<Rightarrow> bool" where
  "consistent this = (length_q this = of_nat (length (buffer this)))"

text \<open>A queue constructed with no options, in a module directory \<^verbatim>\<open>/srv\<close>.\<close>

definition fresh_queue :: "string kju" where
  "fresh_queue = kju ''/srv'' 0 no_options"

text \<open>A queue constructed with \<^verbatim>\<open>{limit: 3}\<close>.\<close>

definition limit3_queue :: "string kju" where
  "limit3_queue = kju ''/srv'' 0 (no_options\<lparr>opt_limit := Some 3\<rparr>)"

text \<open>A queue constructed with \<^verbatim>\<open>{interval: 1000, ms: 300}\<close>.\<close>

definition step300_queue :: "string kju" where
  "step300_queue = kju ''/srv'' 0 (no_options\<lparr>opt_interval := Some 1000, opt_ms := Some 300\<rparr>)"

text \<open>A queue constructed with \<^verbatim>\<open>{interval: 1000, ms: 100}\<close>.\<close>

definition step100_queue :: "string kju" where
  "step100_queue = kju ''/srv'' 0 (no_options\<lparr>opt_interval := Some 1000, opt_ms := Some 100\<rparr>)"

text \<open>The options \<^verbatim>\<open>{path: '/data/'}\<close>; \<open>recover\<close> keeps its default, true.\<close>

definition data_options :: configuration where
  "data_options = no_options\<lparr>opt_path := Some ''/data/''\<rparr>"

text \<open>A disk whose directory \<^verbatim>\<open>/data/\<close> exists and is empty.\<close>

definition empty_dir_disk :: "string filesystem" where
  "empty_dir_disk = Map.empty(''/data/'' \<mapsto> Dir [])"

text \<open>
  A process about to exit: its queue, on \<^verbatim>\<open>/data/\<close>, holds the undrained items
  \<^verbatim>\<open>"a"\<close>, \<^verbatim>\<open>"b"\<close>.
\<close>

definition exiting_process :: "string process" where
  "exiting_process =
     \<lparr>queue = push [''a'', ''b''] (kju ''/srv'' 0 data_options),
      disk = empty_dir_disk, console = [], thrown = None\<rparr>"

text \<open>A disk with the one recovery file \<^verbatim>\<open>batch.kju\<close>, holding \<^verbatim>\<open>["x","y"]\<close>.\<close>

definition batch_disk :: "string filesystem" where
  "batch_disk = Map.empty(
     ''/data/'' \<mapsto> Dir [''batch.kju''],
     ''/data/batch.kju'' \<mapsto> File (JArray [''x'', ''y'']))"

text \<open>
  A disk with two recovery files: \<^verbatim>\<open>bad.kju\<close> cannot be read, \<^verbatim>\<open>good.kju\<close>
  holds \<^verbatim>\<open>["x"]\<close>.
\<close>

definition bad_disk :: "string filesystem" where
  "bad_disk = Map.empty(
     ''/data/'' \<mapsto> Dir [''bad.kju'', ''good.kju''],
     ''/data/bad.kju'' \<mapsto> Unreadable,
     ''/data/good.kju'' \<mapsto> File (JArray [''x'']))"

text \<open>The host completes the reads in the order they were issued.\<close>

definition in_order :: "string list \<Rightarrow> string list" where
  "in_order files = files"

section \<open>Properties\<close>

subsection \<open>The length invariant\<close>

lemma consistent_kju: "consistent (kju dirname now cfg)"
  by (simp add: consistent_def kju_def enable_def emit_def Let_def)

lemma consistent_push: "consistent this \<Longrightarrow> consistent (push xs this)"
  by (simp add: consistent_def push_def Let_def)

lemma consistent_drain: "consistent (drain this)"
  by (simp add: consistent_def drain_def emit_def Let_def)

lemma consistent_enable: "consistent this \<Longrightarrow> consistent (enable this)"
  by (simp add: consistent_def enable_def emit_def)

lemma consistent_update: "consistent this \<Longrightarrow> consistent (update this)"
  by (simp add: consistent_def update_def drain_def emit_def Let_def)

lemma consistent_disable: "consistent this \<Longrightarrow> consistent (disable nocommit this)"
  by (simp add: consistent_def disable_def drain_def emit_def Let_def)

lemma consistent_ticks: "consistent this \<Longrightarrow> consistent (ticks n this)"
  by (induction n arbitrary: this) (simp_all add: consistent_update)

subsection \<open>push\<close>

text \<open>
  Claim C10. For every queue state and every list of items, \<open>push\<close> changes only
  \<open>buffer\<close> (the items are appended in call order) and \<open>length\<close> (increased by the
  number of items); \<open>drained\<close>, \<open>processed\<close>, \<open>interval\<close>, \<open>minimum\<close>,
  \<open>maximum\<close> and \<open>since\<close> are unchanged. The last conjunct says that no other field of
  the object changes either.
\<close>

theorem push_frame:
  "buffer (push xs this) = buffer this @ xs \<and>
   length_q (push xs this) = length_q this + of_nat (length xs) \<and>
   drained (push xs this) = drained this \<and>
   processed (push xs this) = processed this \<and>
   interval (push xs this) = interval this \<and>
   minimum (push xs this) = minimum this \<and>
   maximum (push xs this) = maximum this \<and>
   since (push xs this) = since this \<and>
   push xs this =
     this\<lparr>length_q := length_q this + of_nat (length xs), buffer := buffer this @ xs\<rparr>"
  by (simp add: push_def Let_def)

text \<open>
  Claim C5 says that a push which brings \<open>length\<close> to the limit triggers a drain whose
  batch is \<^verbatim>\<open>["a","b","c"]\<close> and that \<open>drained\<close> becomes 1. On the code, with limit 3
  and the pushes of \<^verbatim>\<open>"a"\<close>, \<^verbatim>\<open>"b"\<close>, \<^verbatim>\<open>"c"\<close>: the length reaches the limit, the
  three items stay in the buffer, \<open>drained\<close> is still 0, no signal has been published
  since the construction and the pending timer is the one set by the constructor.
\<close>

theorem push_at_limit_triggers_nothing:
  "(let r = push [''c''] (push [''b''] (push [''a''] limit3_queue))
    in limit r = 3 \<and> length_q r = 3 \<and> buffer r = [''a'', ''b'', ''c''] \<and>
       drained r = 0 \<and> data_signals r = [] \<and>
       emitted r = emitted limit3_queue \<and> timeout r = timeout limit3_queue)"
  by (simp add: limit3_queue_def kju_def no_options_def enable_def emit_def push_def
      data_signals_def Let_def)

subsection \<open>drain\<close>

text \<open>
  Claim C4, as stated, at the freshly constructed queue: its buffer is empty, and
  \<open>drain\<close> publishes a \<^verbatim>\<open>data\<close> signal and changes \<open>drained\<close> from 0 to 1.
\<close>

theorem drain_empty_counterexample:
  "buffer fresh_queue = [] \<and>
   emitted fresh_queue = [Enabled] \<and>
   emitted (drain fresh_queue) = [Enabled, Data [] 0] \<and>
   drained fresh_queue = 0 \<and>
   drained (drain fresh_queue) = 1"
  by (simp add: fresh_queue_def kju_def no_options_def enable_def emit_def drain_def Let_def)

text \<open>
  Claim C4, amended. \<open>drain\<close> on a queue whose buffer is empty (and whose \<open>length\<close>
  is the buffer's size, so 0) leaves \<open>processed\<close>, \<open>length\<close> and \<open>buffer\<close>
  unchanged, and it is not guarded: it publishes one \<^verbatim>\<open>data\<close> signal with the empty
  batch and count 0 and increases \<open>drained\<close> by 1. The guard is in the callers: on such
  a queue a tick (\<open>update\<close>) and \<open>disable\<close> publish no \<^verbatim>\<open>data\<close> signal and leave
  \<open>drained\<close>, \<open>processed\<close>, \<open>length\<close> and \<open>buffer\<close> unchanged.
\<close>

theorem drain_empty_unguarded:
  assumes "consistent this" and "buffer this = []"
  shows "emitted (drain this) = emitted this @ [Data [] 0] \<and>
         drained (drain this) = drained this + 1 \<and>
         processed (drain this) = processed this \<and>
         length_q (drain this) = length_q this \<and>
         buffer (drain this) = buffer this \<and>
         data_signals (update this) = data_signals this \<and>
         drained (update this) = drained this \<and>
         processed (update this) = processed this \<and>
         length_q (update this) = length_q this \<and>
         buffer (update this) = buffer this \<and>
         data_signals (disable nocommit this) = data_signals this \<and>
         drained (disable nocommit this) = drained this \<and>
         processed (disable nocommit this) = processed this \<and>
         length_q (disable nocommit this) = length_q this \<and>
         buffer (disable nocommit this) = buffer this"
proof -
  from assms have len: "length_q this = 0"
    by (simp add: consistent_def)
  have d: "emitted (drain this) = emitted this @ [Data [] 0] \<and>
           drained (drain this) = drained this + 1 \<and>
           processed (drain this) = processed this \<and>
           length_q (drain this) = length_q this \<and>
           buffer (drain this) = buffer this"
    using assms(2) len by (simp add: drain_def emit_def Let_def)
  have u: "data_signals (update this) = data_signals this \<and>
           drained (update this) = drained this \<and>
           processed (update this) = processed this \<and>
           length_q (update this) = length_q this \<and>
           buffer (update this) = buffer this"
    using len by (simp add: update_def emit_def Let_def data_signals_def)
  have s: "data_signals (disable nocommit this) = data_signals this \<and>
           drained (disable nocommit this) = drained this \<and>
           processed (disable nocommit this) = processed this \<and>
           length_q (disable nocommit this) = length_q this \<and>
           buffer (disable nocommit this) = buffer this"
    using len by (simp add: disable_def emit_def Let_def data_signals_def)
  from d u s show ?thesis by simp
qed

text \<open>
  The amended claim C4 at the freshly constructed queue, which satisfies both
  hypotheses.
\<close>

theorem drain_empty_unguarded_witness:
  "consistent fresh_queue \<and> buffer fresh_queue = [] \<and>
   emitted (drain fresh_queue) = [Enabled, Data [] 0] \<and>
   drained (drain fresh_queue) = 1 \<and>
   data_signals (update fresh_queue) = [] \<and>
   drained (update fresh_queue) = 0 \<and>
   data_signals (disable False fresh_queue) = [] \<and>
   drained (disable False fresh_queue) = 0"
proof -
  have c: "consistent fresh_queue"
    by (simp add: fresh_queue_def consistent_kju)
  have b: "buffer fresh_queue = []"
    by (simp add: fresh_queue_def kju_def enable_def emit_def Let_def)
  have e: "emitted fresh_queue = [Enabled]" "drained fresh_queue = 0"
    by (simp_all add: fresh_queue_def kju_def no_options_def enable_def emit_def Let_def)
  show ?thesis
    using c b e drain_empty_unguarded [OF c b, of False] by (simp add: data_signals_def)
qed

subsection \<open>The interval\<close>

lemma kju_bounds:
  "minimum (kju dirname now cfg) = interval (kju dirname now cfg) / 2 \<and>
   maximum (kju dirname now cfg) = interval (kju dirname now cfg) * 2"
  by (simp add: kju_def enable_def emit_def Let_def)

lemma update_keeps_bounds:
  "minimum (update this) = minimum this \<and> maximum (update this) = maximum this"
  by (simp add: update_def drain_def emit_def Let_def)

lemma ticks_keeps_bounds:
  "minimum (ticks n this) = minimum this \<and> maximum (ticks n this) = maximum this"
  by (induction n arbitrary: this) (simp_all add: update_keeps_bounds)

text \<open>
  What a tick does guarantee: the interval stays within one step of the two bounds.
\<close>

lemma update_interval_slack:
  assumes "0 \<le> ms this" and "minimum this \<le> maximum this"
    and "minimum this - ms this \<le> interval this"
    and "interval this \<le> maximum this + ms this"
  shows "minimum this - ms this \<le> interval (update this) \<and>
         interval (update this) \<le> maximum this + ms this"
  using assms by (simp add: update_def drain_def emit_def Let_def)

text \<open>
  Claim C6 says that the interval stays within \<open>[minimum, maximum]\<close> for every
  configuration and every sequence of ticks. On the code, with baseline interval 1000
  and step 300 (minimum 500, maximum 2000) and an empty buffer: the interval is 1000 at
  construction and 2200 after four ticks. The test against \<open>maximum\<close> is made before the
  step is added, not after.
\<close>

theorem interval_exceeds_maximum:
  "interval step300_queue = 1000 \<and>
   minimum (ticks 4 step300_queue) = 500 \<and>
   maximum (ticks 4 step300_queue) = 2000 \<and>
   interval (ticks 4 step300_queue) = 2200"
  by code_simp

text \<open>
  Claim C7 says that a tick on an underfull queue moves the interval towards
  \<open>maximum\<close> by the step, clamped at \<open>maximum\<close>. On the code, with baseline interval
  1000 and step 300, after three ticks on an empty buffer the interval is 1900, below
  the maximum 2000; the next tick, still on an empty buffer, sets it to 2200, and
  publishes nothing.
\<close>

theorem underfull_tick_not_clamped:
  "(let this = ticks 3 step300_queue
    in length_q this = 0 \<and> limit this = 500 \<and> ms this = 300 \<and> maximum this = 2000 \<and>
       timeout this = Some 1900 \<and> interval this = 1900 \<and>
       interval (update this) = 2200 \<and>
       emitted (update this) = emitted this)"
  by code_simp

text \<open>
  The scenario of claim C7, where the step divides the distance to the maximum: baseline
  interval 1000, step 100; the tenth tick on an empty buffer brings the interval to 2000
  and publishes \<^verbatim>\<open>warning.maximum\<close>, and so does every tick after it.
\<close>

lemma ten_ticks_reach_maximum:
  "interval (ticks 9 step100_queue) = 1900 \<and>
   emitted (ticks 9 step100_queue) = [Enabled] \<and>
   interval (ticks 10 step100_queue) = 2000 \<and>
   maximum (ticks 10 step100_queue) = 2000 \<and>
   emitted (ticks 10 step100_queue) = [Enabled, WarningMaximum] \<and>
   interval (ticks 12 step100_queue) = 2000 \<and>
   emitted (ticks 12 step100_queue) = [Enabled, WarningMaximum, WarningMaximum, WarningMaximum]"
  by code_simp

text \<open>
  A tick on an underfull queue that ends with the interval at \<open>maximum\<close> publishes
  \<^verbatim>\<open>warning.maximum\<close> when warnings are on, whatever happened on earlier ticks.
\<close>

lemma warning_at_maximum:
  assumes "timeout this \<noteq> None" and "length_q this = 0 \<or> length_q this < limit this"
    and "warnings this" and "interval (update this) = maximum this"
  shows "WarningMaximum \<in> set (emitted (update this))"
  using assms by (auto simp add: update_def drain_def emit_def Let_def split: if_splits)

subsection \<open>metrics\<close>

lemma metrics_counters:
  "map_of (metrics fmt now this) ''drain'' = Some (Number (drained this)) \<and>
   map_of (metrics fmt now this) ''processed'' = Some (Number (processed this)) \<and>
   map_of (metrics fmt now this) ''uptime'' =
     Some (Number (if since this \<noteq> 0 then now - since this else 0)) \<and>
   map_of (metrics fmt now this) ''interval'' = Some (Number (interval this))"
  by (simp add: metrics_def)

text \<open>
  Claim C9 says that the snapshot holds items-per-minute and drains-per-minute rates
  derived from the counters and the uptime. On the code, for every state: the value
  under \<^verbatim>\<open>drains per minute\<close> is the string \<^verbatim>\<open>NaN\<close> (the dividend is the method
  \<open>drain\<close>, not the counter \<open>drained\<close>), and the value under \<^verbatim>\<open>items per minute\<close> is
  \<open>processed / 60000\<close> printed with two decimals, whatever the uptime.
\<close>

theorem metrics_rates:
  "map_of (metrics fmt now this) ''drains per minute'' = Some (String ''NaN'') \<and>
   map_of (metrics fmt now this) ''items per minute'' =
     Some (String (fmt (processed this / 60000) 2))"
  by (simp add: metrics_def toFixed_def divide_js_def drain_as_number_def)

subsection \<open>backup and recovery\<close>

lemma backup_keeps_disk: "disk (backup p) = disk p \<and> queue (backup p) = queue p"
  by (simp add: backup_def Let_def split: sum.split)

lemma backup_missing_path:
  "\<not> exists_path (disk p) (path (queue p)) \<Longrightarrow> backup p = p"
  by (simp add: backup_def)

lemma read_keeps_disk: "disk (read file p) = disk p"
  by (simp add: read_def readFile_cb_def done_call_def Let_def
      split: sum.split contents.split option.split)

lemma complete_reads_keeps_disk: "disk (complete_reads files p) = disk p"
  by (induction files arbitrary: p) (simp_all add: read_keeps_disk)

lemma recovery_keeps_disk: "disk (recovery order p) = disk p"
  by (simp add: recovery_def complete_reads_keeps_disk Let_def split: sum.split)

lemma read_throws: "thrown (read file p) = Some (ReferenceError ''done'')"
  by (simp add: read_def readFile_cb_def done_call_def Let_def
      split: sum.split contents.split option.split)

lemma read_error_silent:
  "readFile (disk p) (path (queue p) @ file) = Inl err \<Longrightarrow> queue (read file p) = queue p"
  by (simp add: read_def readFile_cb_def done_call_def)

lemma read_corrupted:
  "readFile (disk p) (path (queue p) @ file) = Inr Garbage \<Longrightarrow>
   emitted (queue (read file p)) =
     emitted (queue p) @
       [ErrorRecover (Error (''corrupted file, unable to parse contents of '' @ file))]"
  by (simp add: read_def readFile_cb_def done_call_def emit_def Let_def)

lemma read_array_pushes:
  "readFile (disk p) (path (queue p) @ file) = Inr (JArray todo) \<Longrightarrow>
   buffer (queue (read file p)) = buffer (queue p) @ todo"
  by (simp add: read_def readFile_cb_def done_call_def push_def Let_def)

lemma complete_reads_first:
  "thrown p = None \<Longrightarrow> complete_reads (file # files) p = read file p"
  by (cases files) (simp_all add: read_throws)

text \<open>
  Claim C2 says that \<open>backup\<close>, when the directory exists, writes the whole buffer as
  one JSON array to a newly named file. On the code, for the exiting process whose
  directory \<^verbatim>\<open>/data/\<close> exists and whose buffer holds \<^verbatim>\<open>"a"\<close>, \<^verbatim>\<open>"b"\<close>:
  \<open>backup\<close> writes a line to the console and leaves the disk as it was; the directory
  still lists no file.
\<close>

theorem backup_writes_no_file:
  "exists_path (disk exiting_process) (path (queue exiting_process)) \<and>
   buffer (queue exiting_process) = [''a'', ''b''] \<and>
   disk (backup exiting_process) = disk exiting_process \<and>
   disk (backup exiting_process) ''/data/'' = Some (Dir []) \<and>
   console (backup exiting_process) = [''backing uppa''] \<and>
   thrown (backup exiting_process) = None"
  by (simp add: exiting_process_def empty_dir_disk_def data_options_def kju_def no_options_def
      enable_def emit_def push_def backup_def exists_path_def readdir_def Let_def)

text \<open>
  Claim C1 says that \<open>backup\<close> followed by the construction of a fresh queue with
  \<open>recover\<close> set, on the same directory, gives the new buffer the same items in the same
  order. On the code, for the exiting process whose buffer holds \<^verbatim>\<open>"a"\<close>, \<^verbatim>\<open>"b"\<close>:
  after \<open>backup\<close>, a queue constructed on the resulting disk with \<open>recover\<close> set ends
  its recovery with an empty buffer.
\<close>

theorem backup_then_recover_loses_items:
  "buffer (queue exiting_process) = [''a'', ''b''] \<and>
   thrown (backup exiting_process) = None \<and>
   recover (queue (startup ''/srv'' 1 in_order data_options (disk (backup exiting_process)))) \<and>
   path (queue (startup ''/srv'' 1 in_order data_options (disk (backup exiting_process)))) =
     path (queue exiting_process) \<and>
   buffer (queue (startup ''/srv'' 1 in_order data_options (disk (backup exiting_process)))) = []"
  by (simp add: exiting_process_def empty_dir_disk_def data_options_def kju_def no_options_def
      enable_def emit_def push_def backup_def exists_path_def readdir_def Let_def
      startup_def exists_cb_def recovery_def in_order_def)

text \<open>
  Claim C3 says that a recovery file holding a JSON array is pushed, in order, and then
  deleted. On the code, with the one file \<^verbatim>\<open>batch.kju\<close> holding \<^verbatim>\<open>["x","y"]\<close> and
  recovery enabled: after the recovery the buffer is \<^verbatim>\<open>["x","y"]\<close> and \<open>length\<close> is
  2, the file is still on the disk with its contents, and the callback has ended with
  the ReferenceError of the undeclared \<^verbatim>\<open>done\<close>.
\<close>

theorem recovered_file_not_deleted:
  "(let r = startup ''/srv'' 0 in_order data_options batch_disk
    in buffer (queue r) = [''x'', ''y''] \<and> length_q (queue r) = 2 \<and>
       disk r ''/data/batch.kju'' = Some (File (JArray [''x'', ''y''])) \<and>
       disk r ''/data/'' = Some (Dir [''batch.kju'']) \<and>
       thrown r = Some (ReferenceError ''done''))"
  by (simp add: startup_def data_options_def batch_disk_def kju_def no_options_def enable_def
      emit_def push_def Let_def exists_cb_def exists_path_def recovery_def readdir_def
      is_kju_def read_def readFile_def readFile_cb_def done_call_def in_order_def)

text \<open>
  Claim C8 says that a recovery file that cannot be read is signalled with
  \<^verbatim>\<open>error.recover\<close>, without a crash and without aborting the recovery of the other
  files. On the code, with an unreadable \<^verbatim>\<open>bad.kju\<close> and a readable \<^verbatim>\<open>good.kju\<close>
  holding \<^verbatim>\<open>["x"]\<close>: the only signal published is the constructor's \<^verbatim>\<open>enabled\<close>,
  the callback of the failed read ends with the ReferenceError of the undeclared
  \<^verbatim>\<open>done\<close>, and the item of \<^verbatim>\<open>good.kju\<close> is not in the buffer.
\<close>

theorem read_failure_not_signalled:
  "(let r = startup ''/srv'' 0 in_order data_options bad_disk
    in emitted (queue r) = [Enabled] \<and>
       thrown r = Some (ReferenceError ''done'') \<and>
       buffer (queue r) = [] \<and>
       disk r ''/data/good.kju'' = Some (File (JArray [''x''])))"
  by (simp add: startup_def data_options_def bad_disk_def kju_def no_options_def enable_def
      emit_def push_def Let_def exists_cb_def exists_path_def recovery_def readdir_def
      is_kju_def read_def readFile_def readFile_cb_def done_call_def in_order_def)

end
